theory Spec2Isabelle
  imports Complex_Main
begin

section \<open>Numeric arrays\<close>

text \<open>
  The notebooks compute on NumPy arrays of floating-point numbers. A one-dimensional
  array is a list; a two-dimensional array is a list of rows. The Lorenz right-hand side
  and the bifurcation plot are modelled over a linearly ordered field (exact arithmetic).
  The peak extraction of the Lorenz map is modelled over an arithmetic that is a
  parameter, so that its theorems hold in the arithmetic of the arrays, whatever that
  arithmetic does at infinities, at NaN and in rounding.
\<close>

datatype py_error = IndexError | ValueError | LibraryError

text \<open>
  \<^verbatim>\<open>xs[i]\<close> on a sequence: a negative index counts from the end, and an index outside
  the sequence raises IndexError.
\<close>

definition py_index :: "'a list \<Rightarrow> int \<Rightarrow> py_error + 'a" where
  "py_index xs i =
     (let n = int (length xs);
          k = (if i < 0 then i + n else i)
      in if k < 0 \<or> n \<le> k then Inl IndexError else Inr (xs ! nat k))"

text \<open>
  A slice bound of \<^verbatim>\<open>xs[start:stop]\<close>: a negative bound counts from the end, and every
  bound is clipped to the array, so a slice never raises.
\<close>

definition clip_index :: "nat \<Rightarrow> int \<Rightarrow> nat" where
  "clip_index n i = (if i < 0 then nat (max 0 (i + int n)) else min n (nat i))"

definition py_slice :: "int option \<Rightarrow> int option \<Rightarrow> 'a list \<Rightarrow> 'a list" where
  "py_slice start stop xs =
     (let n = length xs;
          lo = (case start of None \<Rightarrow> 0 | Some i \<Rightarrow> clip_index n i);
          hi = (case stop of None \<Rightarrow> n | Some i \<Rightarrow> clip_index n i)
      in take (hi - lo) (drop lo xs))"

text \<open>
  An elementwise binary operation on two one-dimensional arrays: equal shapes combine
  entry by entry, a one-element array is broadcast, and any other pair of shapes raises
  ValueError.
\<close>

definition broadcast2 :: "('a \<Rightarrow> 'b \<Rightarrow> 'c) \<Rightarrow> 'a list \<Rightarrow> 'b list \<Rightarrow> py_error + 'c list" where
  "broadcast2 f xs ys =
     (if length xs = length ys then Inr (map2 f xs ys)
      else if length xs = 1 then Inr (map (f (hd xs)) ys)
      else if length ys = 1 then Inr (map (\<lambda>x. f x (hd ys)) xs)
      else Inl ValueError)"

text \<open>
  The slice assignment \<^verbatim>\<open>xs[start:stop] = vs\<close>: the right-hand side has the shape of the
  slice or is broadcast from one element; otherwise ValueError. The model returns the
  updated array.
\<close>

definition set_slice :: "int option \<Rightarrow> int option \<Rightarrow> 'a list \<Rightarrow> 'a list \<Rightarrow> py_error + 'a list" where
  "set_slice start stop xs vs =
     (let n = length xs;
          lo = (case start of None \<Rightarrow> 0 | Some i \<Rightarrow> clip_index n i);
          hi = (case stop of None \<Rightarrow> n | Some i \<Rightarrow> clip_index n i);
          m = hi - lo
      in if length vs = m then Inr (take lo xs @ vs @ drop (lo + m) xs)
         else if length vs = 1 then Inr (take lo xs @ replicate m (hd vs) @ drop (lo + m) xs)
         else Inl ValueError)"

text \<open>\<^verbatim>\<open>np.nonzero\<close> of a boolean array: the positions that hold True, in increasing order.\<close>

definition nonzero :: "bool list \<Rightarrow> nat list" where
  "nonzero bs = filter (\<lambda>i. bs ! i) [0..<length bs]"

text \<open>
  Indexing by an array of positions, \<^verbatim>\<open>xs[idx]\<close>: one entry per position, IndexError when
  a position is outside the array.
\<close>

definition take_indices :: "'a list \<Rightarrow> nat list \<Rightarrow> py_error + 'a list" where
  "take_indices xs idx =
     (if list_all (\<lambda>i. i < length xs) idx then Inr (map (\<lambda>i. xs ! i) idx) else Inl IndexError)"

text \<open>Indexing by a boolean array of the same shape, \<^verbatim>\<open>xs[flags]\<close>.\<close>

definition mask_select :: "'a list \<Rightarrow> bool list \<Rightarrow> 'a list" where
  "mask_select xs flags = map fst (filter snd (zip xs flags))"

section \<open>The Lorenz right-hand side\<close>

text \<open>
  \<^verbatim>\<open>
  def Lorenz(state,t,sigma,r,b):
    x = state[0]
    y = state[1]
    z = state[2]
    xd = sigma * (y-x)
    yd = (r-z)*x - y
    zd = x*y - b*z
    return [xd, yd, zd]
  \<close>
  The three reads happen in order; the first one out of range ends the call.
\<close>

definition Lorenz ::
  "('a::linordered_field) list \<Rightarrow> 'a \<Rightarrow> 'a \<Rightarrow> 'a \<Rightarrow> 'a \<Rightarrow> py_error + 'a list" where
  "Lorenz state t sigma r b =
     (case py_index state 0 of Inl e \<Rightarrow> Inl e | Inr x \<Rightarrow>
      case py_index state 1 of Inl e \<Rightarrow> Inl e | Inr y \<Rightarrow>
      case py_index state 2 of Inl e \<Rightarrow> Inl e | Inr z \<Rightarrow>
        (let xd = sigma * (y - x);
             yd = (r - z) * x - y;
             zd = x * y - b * z
         in Inr [xd, yd, zd]))"

section \<open>The Lorenz map: extraction of the peaks\<close>

text \<open>
  The arithmetic of the array entries: the value \<open>0.0\<close>, subtraction, multiplication, the
  comparisons \<open><=\<close> and \<open>>\<close>, and \<^verbatim>\<open>np.mean\<close>. Nothing is assumed of them.
\<close>

record 'a arith =
  a_zero :: 'a
  a_sub :: "'a \<Rightarrow> 'a \<Rightarrow> 'a"
  a_mul :: "'a \<Rightarrow> 'a \<Rightarrow> 'a"
  a_le :: "'a \<Rightarrow> 'a \<Rightarrow> bool"
  a_gt :: "'a \<Rightarrow> 'a \<Rightarrow> bool"
  a_mean :: "'a list \<Rightarrow> 'a"

definition zeros :: "'a arith \<Rightarrow> nat \<Rightarrow> 'a list" where
  "zeros A n = replicate n (a_zero A)"

text \<open>
  The last code cell of the Lorenz notebook, without its plotting calls:
  \<^verbatim>\<open>
  dZ = np.zeros(Z.shape)
  dZ[1:-2] = Z[2:-1] - Z[0:-3]
  icross = np.nonzero(dZ[:-2]*dZ[1:-1] <= 0)
  Zextreme = Z[icross]
  meanZ = np.mean(Z)
  Zn = Zextreme[Zextreme > meanZ]
  \<close>
  \<open>Z\<close> is a one-dimensional array. The record holds the variables the cell leaves behind.
\<close>

record 'a lorenz_map =
  dZ :: "'a list"
  icross :: "nat list"
  Zextreme :: "'a list"
  meanZ :: 'a
  Zn :: "'a list"

definition lorenz_map_cell :: "'a arith \<Rightarrow> 'a list \<Rightarrow> py_error + 'a lorenz_map" where
  "lorenz_map_cell A Z =
     (case broadcast2 (a_sub A) (py_slice (Some 2) (Some (-1)) Z) (py_slice (Some 0) (Some (-3)) Z) of
        Inl e \<Rightarrow> Inl e
      | Inr diff \<Rightarrow>
     (case set_slice (Some 1) (Some (-2)) (zeros A (length Z)) diff of
        Inl e \<Rightarrow> Inl e
      | Inr dZ' \<Rightarrow>
     (case broadcast2 (a_mul A) (py_slice None (Some (-2)) dZ') (py_slice (Some 1) (Some (-1)) dZ') of
        Inl e \<Rightarrow> Inl e
      | Inr crossing \<Rightarrow>
     (let icross' = nonzero (map (\<lambda>p. a_le A p (a_zero A)) crossing) in
      case take_indices Z icross' of
        Inl e \<Rightarrow> Inl e
      | Inr Zextreme' \<Rightarrow>
     (let meanZ' = a_mean A Z;
          Zn' = mask_select Zextreme' (map (\<lambda>v. a_gt A v meanZ') Zextreme')
      in Inr \<lparr>dZ = dZ', icross = icross', Zextreme = Zextreme', meanZ = meanZ', Zn = Zn'\<rparr>)))))"

text \<open>
  The description the steps are compared with: the centred difference
  \<open>Z[i+1] - Z[i-1]\<close> at the indices \<open>1\<close> to \<open>len(Z) - 3\<close> and zero elsewhere, and the
  positions, up to \<open>len(Z) - 3\<close>, where the product of two consecutive differences passes
  the test \<open><= 0\<close>.
\<close>

definition centred :: "'a arith \<Rightarrow> 'a list \<Rightarrow> nat \<Rightarrow> 'a" where
  "centred A Z i =
     (if 1 \<le> i \<and> i + 3 \<le> length Z then a_sub A (Z ! (i + 1)) (Z ! (i - 1)) else a_zero A)"

definition crossings :: "'a arith \<Rightarrow> 'a list \<Rightarrow> nat list" where
  "crossings A Z =
     filter (\<lambda>i. a_le A (a_mul A (centred A Z i) (centred A Z (i + 1))) (a_zero A)) [0..<length Z - 2]"

text \<open>
  A local maximum of a series: a sample at least as large as each neighbouring sample
  it has. A value is a local maximum when it is the sample at such a position.
\<close>

definition local_max_at :: "'a arith \<Rightarrow> 'a list \<Rightarrow> nat \<Rightarrow> bool" where
  "local_max_at A Z i \<longleftrightarrow>
     i < length Z \<and> (0 < i \<longrightarrow> a_le A (Z ! (i - 1)) (Z ! i))
       \<and> (i + 1 < length Z \<longrightarrow> a_le A (Z ! (i + 1)) (Z ! i))"

definition is_local_max :: "'a arith \<Rightarrow> 'a list \<Rightarrow> 'a \<Rightarrow> bool" where
  "is_local_max A Z v \<longleftrightarrow> list_ex (\<lambda>i. Z ! i = v \<and> local_max_at A Z i) [0..<length Z]"

subsection \<open>The special values of binary64\<close>

text \<open>
  The arrays hold IEEE 754 binary64 numbers. To evaluate the cell at a concrete series,
  \<open>fl\<close> has the finite values (as rationals), the two infinities and NaN, with the
  operations of IEEE 754 on them: a finite result whose magnitude reaches
  \<open>2^1024 - 2^970\<close> overflows to the infinity of its sign, \<open>inf - inf\<close> and \<open>0 * inf\<close> are
  NaN, and every comparison with NaN is False. A finite result in range is kept exact:
  rounding is not modelled, and the series evaluated below are chosen so that every finite
  value that occurs is a binary64 number. \<^verbatim>\<open>np.mean\<close> adds from left to right and divides
  by the length; the mean of an empty array is NaN.
\<close>

datatype fl = Fin rat | PInf | MInf | NaN

definition fl_round :: "rat \<Rightarrow> fl" where
  "fl_round q =
     (if 2 ^ 1024 - 2 ^ 970 \<le> q then PInf
      else if q \<le> - (2 ^ 1024 - 2 ^ 970) then MInf
      else Fin q)"

fun fl_neg :: "fl \<Rightarrow> fl" where
  "fl_neg (Fin a) = Fin (- a)"
| "fl_neg PInf = MInf"
| "fl_neg MInf = PInf"
| "fl_neg NaN = NaN"

fun fl_add :: "fl \<Rightarrow> fl \<Rightarrow> fl" where
  "fl_add NaN _ = NaN"
| "fl_add _ NaN = NaN"
| "fl_add (Fin a) (Fin b) = fl_round (a + b)"
| "fl_add PInf MInf = NaN"
| "fl_add MInf PInf = NaN"
| "fl_add PInf _ = PInf"
| "fl_add _ PInf = PInf"
| "fl_add MInf _ = MInf"
| "fl_add _ MInf = MInf"

definition fl_sub :: "fl \<Rightarrow> fl \<Rightarrow> fl" where
  "fl_sub a b = fl_add a (fl_neg b)"

fun fl_sign :: "fl \<Rightarrow> int" where
  "fl_sign (Fin a) = (if 0 < a then 1 else if a < 0 then - 1 else 0)"
| "fl_sign PInf = 1"
| "fl_sign MInf = - 1"
| "fl_sign NaN = 0"

fun fl_mul :: "fl \<Rightarrow> fl \<Rightarrow> fl" where
  "fl_mul NaN _ = NaN"
| "fl_mul _ NaN = NaN"
| "fl_mul (Fin a) (Fin b) = fl_round (a * b)"
| "fl_mul a b =
     (if fl_sign a * fl_sign b = 0 then NaN
      else if 0 < fl_sign a * fl_sign b then PInf else MInf)"

fun fl_le :: "fl \<Rightarrow> fl \<Rightarrow> bool" where
  "fl_le NaN _ = False"
| "fl_le _ NaN = False"
| "fl_le (Fin a) (Fin b) = (a \<le> b)"
| "fl_le MInf _ = True"
| "fl_le _ PInf = True"
| "fl_le _ _ = False"

definition fl_gt :: "fl \<Rightarrow> fl \<Rightarrow> bool" where
  "fl_gt a b \<longleftrightarrow> fl_le b a \<and> \<not> fl_le a b"

definition fl_mean :: "fl list \<Rightarrow> fl" where
  "fl_mean xs =
     (if xs = [] then NaN
      else case foldl fl_add (Fin 0) xs of
             Fin s \<Rightarrow> fl_round (s / of_nat (length xs))
           | v \<Rightarrow> v)"

definition float_arith :: "fl arith" where
  "float_arith = \<lparr>a_zero = Fin 0, a_sub = fl_sub, a_mul = fl_mul, a_le = fl_le, a_gt = fl_gt,
                   a_mean = fl_mean\<rparr>"

section \<open>The bifurcation diagram\<close>

text \<open>
  The plotting library keeps one current figure; the model records the calls made on it,
  in order. The contour routine belongs to the library: it is a parameter, it may raise,
  and on success it gives the paths of the zero level set, each a list of vertices
  \<open>(vr, vx)\<close>.
\<close>

datatype 'a plt_cmd =
    Figure
  | Contour "'a list list" "'a list list" "'a list list" "'a list" string
  | Clf
  | Plot "'a list" "'a list" string
  | Hold bool
  | Xlabel string
  | Ylabel string
  | Legend "string list" string
  | Xlim 'a 'a
  | Ylim 'a 'a

type_synonym 'a contour_lib =
  "'a list list \<Rightarrow> 'a list list \<Rightarrow> 'a list list \<Rightarrow> 'a list \<Rightarrow> py_error + ('a \<times> 'a) list list"

text \<open>\<^verbatim>\<open>numpy.meshgrid(r,x)\<close>: one row per entry of \<open>x\<close>, one column per entry of \<open>r\<close>.\<close>

definition meshgrid :: "'a list \<Rightarrow> 'a list \<Rightarrow> 'a list list \<times> 'a list list" where
  "meshgrid r x = (replicate (length x) r, map (\<lambda>v. replicate (length r) v) x)"

text \<open>
  The body of the loop over the paths:
  \<^verbatim>\<open>
  vertices = path.vertices
  vr = vertices[:,0]
  vx = vertices[:,1]
  mask = numpy.sign(f_x(vr,vx))
  stable = mask < 0.
  unstable = mask > 0.
  plt.plot(vr[stable],vx[stable],'b')
  plt.hold(True)
  plt.plot(vr[unstable],vx[unstable],'b--')
  \<close>
  \<open>f_x\<close> acts entry by entry on the two coordinate arrays.
\<close>

definition plot_branches ::
  "('a \<Rightarrow> 'a \<Rightarrow> 'a) \<Rightarrow> (('a::linordered_field) \<times> 'a) list \<Rightarrow> 'a plt_cmd list" where
  "plot_branches f_x vertices =
     (let vr = map fst vertices;
          vx = map snd vertices;
          msk = map sgn (map2 f_x vr vx);
          stable = map (\<lambda>s. s < 0) msk;
          unstable = map (\<lambda>s. 0 < s) msk
      in [Plot (mask_select vr stable) (mask_select vx stable) ''b'',
          Hold True,
          Plot (mask_select vr unstable) (mask_select vx unstable) ''b--''])"

text \<open>
  \<^verbatim>\<open>
  def bifurcation_plot(f,f_x,r,x,rlabel='r'):
      R,X = numpy.meshgrid(r,x)
      plt.figure()
      CS = plt.contour(R,X,f(R,X),[0],colors='k')
      plt.clf()
      c0 = CS.collections[0]
      for path in c0.get_paths():
          ...
      plt.xlabel('parameter {0}'.format(rlabel))
      plt.ylabel('x')
      plt.legend(('stable','unstable'),loc='best')
      plt.xlim(r[0],r[-1])
      plt.ylim(x[0],x[-1])
  \<close>
  The function returns nothing; the model returns how the call ended and the figure
  calls made up to there. An error of the contour routine passes through, as the source
  catches nothing.
\<close>

definition bifurcation_plot ::
  "('a \<Rightarrow> 'a \<Rightarrow> 'a) \<Rightarrow> ('a \<Rightarrow> 'a \<Rightarrow> 'a) \<Rightarrow> ('a::linordered_field) list \<Rightarrow> 'a list \<Rightarrow> string
     \<Rightarrow> 'a contour_lib \<Rightarrow> 'a plt_cmd list \<Rightarrow> (py_error + unit) \<times> 'a plt_cmd list" where
  "bifurcation_plot f f_x r x rlabel contour fig =
     (let R = fst (meshgrid r x);
          X = snd (meshgrid r x);
          F = map2 (map2 f) R X;
          fig1 = fig @ [Figure]
      in case contour R X F [0] of
           Inl e \<Rightarrow> (Inl e, fig1)
         | Inr paths \<Rightarrow>
     (let fig2 = fig1 @ [Contour R X F [0] ''k'', Clf]
                  @ concat (map (plot_branches f_x) paths)
                  @ [Xlabel (''parameter '' @ rlabel), Ylabel ''x'',
                     Legend [''stable'', ''unstable''] ''best'']
      in case py_index r 0 of Inl e \<Rightarrow> (Inl e, fig2) | Inr r0 \<Rightarrow>
         case py_index r (-1) of Inl e \<Rightarrow> (Inl e, fig2) | Inr r1 \<Rightarrow>
     (let fig3 = fig2 @ [Xlim r0 r1]
      in case py_index x 0 of Inl e \<Rightarrow> (Inl e, fig3) | Inr x0 \<Rightarrow>
         case py_index x (-1) of Inl e \<Rightarrow> (Inl e, fig3) | Inr x1 \<Rightarrow>
           (Inr (), fig3 @ [Ylim x0 x1]))))"

text \<open>The contour call of \<open>bifurcation_plot\<close> on its own, to name its outcome.\<close>

definition zero_contour ::
  "('a::linordered_field) contour_lib \<Rightarrow> ('a \<Rightarrow> 'a \<Rightarrow> 'a) \<Rightarrow> 'a list \<Rightarrow> 'a list
     \<Rightarrow> py_error + ('a \<times> 'a) list list" where
  "zero_contour contour f r x =
     (let R = fst (meshgrid r x);
          X = snd (meshgrid r x)
      in contour R X (map2 (map2 f) R X) [0])"

text \<open>
  The library's contour routine checks its input before it traces anything: a grid with
  fewer than two rows or two columns is refused (TypeError, "Input z must be at least a
  (2, 2) shaped array"; here \<open>LibraryError\<close>). What it traces on a grid it accepts stays a
  parameter.
\<close>

definition checked_contour ::
  "('a list list \<Rightarrow> 'a list list \<Rightarrow> 'a list list \<Rightarrow> 'a list \<Rightarrow> ('a \<times> 'a) list list)
     \<Rightarrow> 'a contour_lib" where
  "checked_contour trace R X F levels =
     (if length F < 2 \<or> list_ex (\<lambda>row. length row < 2) F then Inl LibraryError
      else Inr (trace R X F levels))"

section \<open>Calls on shared objects\<close>

text \<open>
  Python passes arrays and functions by reference. To say what a call leaves unchanged,
  the objects a caller can reach live in a store: arrays and function objects, each
  addressed by number, with \<open>next_free\<close> the first array address not yet in use, and the
  figure calls made so far. Here the two functions are written statement by statement
  as store transformers: an argument is the address of its object, and each statement
  is one of the operations below. The functions \<open>f\<close> and \<open>f_x\<close> are pure, as the lambda
  expressions of the notebook are; the two-dimensional grids, the masks and the
  selections inside \<open>bifurcation_plot\<close> are new objects that no caller can reach
  (\<open>meshgrid\<close> copies), so they stay values.
\<close>

record 'a pyworld =
  arrays :: "nat \<Rightarrow> 'a list"
  funcs :: "nat \<Rightarrow> ('a \<Rightarrow> 'a \<Rightarrow> 'a)"
  next_free :: nat
  figure :: "'a plt_cmd list"

text \<open>The read \<^verbatim>\<open>a[i]\<close>, the construction of a new list, and calls on the figure.\<close>

definition getitem :: "nat \<Rightarrow> int \<Rightarrow> 'a pyworld \<Rightarrow> py_error + 'a" where
  "getitem a i w = py_index (arrays w a) i"

definition new_list :: "'a list \<Rightarrow> 'a pyworld \<Rightarrow> nat \<times> 'a pyworld" where
  "new_list v w =
     (next_free w, w\<lparr>arrays := (arrays w)(next_free w := v), next_free := Suc (next_free w)\<rparr>)"

definition plt_calls :: "'a plt_cmd list \<Rightarrow> 'a pyworld \<Rightarrow> 'a pyworld" where
  "plt_calls cmds w = w\<lparr>figure := figure w @ cmds\<rparr>"

definition Lorenz_st ::
  "nat \<Rightarrow> 'a \<Rightarrow> 'a \<Rightarrow> 'a \<Rightarrow> 'a \<Rightarrow> ('a::linordered_field) pyworld \<Rightarrow> (py_error + nat) \<times> 'a pyworld" where
  "Lorenz_st state t sigma r b w =
     (case getitem state 0 w of Inl e \<Rightarrow> (Inl e, w) | Inr x \<Rightarrow>
      case getitem state 1 w of Inl e \<Rightarrow> (Inl e, w) | Inr y \<Rightarrow>
      case getitem state 2 w of Inl e \<Rightarrow> (Inl e, w) | Inr z \<Rightarrow>
        (let xd = sigma * (y - x);
             yd = (r - z) * x - y;
             zd = x * y - b * z
         in case new_list [xd, yd, zd] w of (p, w') \<Rightarrow> (Inr p, w')))"

definition bifurcation_plot_st ::
  "nat \<Rightarrow> nat \<Rightarrow> nat \<Rightarrow> nat \<Rightarrow> string \<Rightarrow> 'a contour_lib \<Rightarrow> ('a::linordered_field) pyworld
     \<Rightarrow> (py_error + unit) \<times> 'a pyworld" where
  "bifurcation_plot_st f f_x r x rlabel contour w =
     (let R = fst (meshgrid (arrays w r) (arrays w x));
          X = snd (meshgrid (arrays w r) (arrays w x));
          F = map2 (map2 (funcs w f)) R X;
          w1 = plt_calls [Figure] w
      in case contour R X F [0] of
           Inl e \<Rightarrow> (Inl e, w1)
         | Inr paths \<Rightarrow>
     (let w2 = plt_calls ([Contour R X F [0] ''k'', Clf]
                  @ concat (map (plot_branches (funcs w f_x)) paths)
                  @ [Xlabel (''parameter '' @ rlabel), Ylabel ''x'',
                     Legend [''stable'', ''unstable''] ''best'']) w1
      in case getitem r 0 w2 of Inl e \<Rightarrow> (Inl e, w2) | Inr r0 \<Rightarrow>
         case getitem r (-1) w2 of Inl e \<Rightarrow> (Inl e, w2) | Inr r1 \<Rightarrow>
     (let w3 = plt_calls [Xlim r0 r1] w2
      in case getitem x 0 w3 of Inl e \<Rightarrow> (Inl e, w3) | Inr x0 \<Rightarrow>
         case getitem x (-1) w3 of Inl e \<Rightarrow> (Inl e, w3) | Inr x1 \<Rightarrow>
           (Inr (), plt_calls [Ylim x0 x1] w3))))"


section \<open>Indexing and slicing\<close>

lemma py_index_in_range:
  "k < length xs \<Longrightarrow> py_index xs (int k) = Inr (xs ! k)"
  by (simp add: py_index_def)

lemma py_index_error: "py_index xs k = Inl e \<Longrightarrow> e = IndexError"
  by (auto simp: py_index_def Let_def split: if_splits)

lemma py_index_first_last:
  "xs \<noteq> [] \<Longrightarrow> py_index xs 0 = Inr (xs ! 0) \<and> py_index xs (-1) = Inr (xs ! (length xs - 1))"
  by (cases xs) (simp_all add: py_index_def nat_diff_distrib' Let_def)

lemma py_index_empty: "py_index [] i = Inl IndexError"
  by (simp add: py_index_def)

lemma py_slice_from_to_end:
  assumes "0 < b"
  shows "py_slice (Some (int a)) (Some (- int b)) xs = take (length xs - b - a) (drop a xs)"
proof (cases "a \<le> length xs")
  case True
  with assms show ?thesis
    by (simp add: py_slice_def clip_index_def Let_def min_def max_def nat_diff_distrib')
next
  case False
  with assms show ?thesis
    by (simp add: py_slice_def clip_index_def Let_def min_def max_def)
qed

lemma py_slice_to_end:
  assumes "0 < b"
  shows "py_slice None (Some (- int b)) xs = take (length xs - b) xs"
  using assms by (simp add: py_slice_def clip_index_def Let_def max_def nat_diff_distrib')

lemma slice_2_m1: "py_slice (Some 2) (Some (-1)) xs = take (length xs - 3) (drop 2 xs)"
  using py_slice_from_to_end [of 1 2 xs] by (simp add: eval_nat_numeral)

lemma slice_0_m3: "py_slice (Some 0) (Some (-3)) xs = take (length xs - 3) xs"
  using py_slice_from_to_end [of 3 0 xs] by simp

lemma slice_1_m1: "py_slice (Some 1) (Some (-1)) xs = take (length xs - 2) (drop 1 xs)"
  using py_slice_from_to_end [of 1 1 xs] by (simp add: eval_nat_numeral)

lemma slice_none_m2: "py_slice None (Some (-2)) xs = take (length xs - 2) xs"
  using py_slice_to_end [of 2 xs] by simp

lemma take_indices_in_range:
  "\<forall>i \<in> set idx. i < length xs \<Longrightarrow> take_indices xs idx = Inr (map (\<lambda>i. xs ! i) idx)"
  by (simp add: take_indices_def list_all_iff)

lemma mask_select_map: "mask_select xs (map P xs) = filter P xs"
  by (induction xs) (simp_all add: mask_select_def)

lemma mask_select_map2: "mask_select (map g xs) (map P xs) = map g (filter P xs)"
  by (induction xs) (simp_all add: mask_select_def)

lemma map2_fst_snd: "map2 h (map fst vs) (map snd vs) = map (\<lambda>v. h (fst v) (snd v)) vs"
  by (induction vs) (simp_all add: split_beta)

lemma zip_fst_snd: "zip (map fst vs) (map snd vs) = vs"
  by (induction vs) simp_all

lemma filter_upt_cut:
  "filter (\<lambda>i. i + 3 \<le> n \<and> P i) [0..<n] = filter P [0..<n - 2]"
proof -
  have split: "[0..<n] = [0..<n - 2] @ [n - 2..<n]"
    using upt_add_eq_append [of 0 "n - 2" "n - (n - 2)"] by simp
  have a: "filter (\<lambda>i. i + 3 \<le> n \<and> P i) [0..<n - 2] = filter P [0..<n - 2]"
    by (rule filter_cong) auto
  have b: "filter (\<lambda>i. i + 3 \<le> n \<and> P i) [n - 2..<n] = []"
    by (auto simp: filter_empty_conv)
  show ?thesis
    by (subst split) (simp only: filter_append a b append_Nil2)
qed

section \<open>Properties of the Lorenz right-hand side\<close>

lemma Lorenz_total:
  assumes "3 \<le> length state"
  shows "\<exists>d. Lorenz state t sigma r b = Inr d"
proof -
  from assms have len: "0 < length state" "1 < length state" "2 < length state"
    by arith+
  have "py_index state 0 = Inr (state ! 0)" "py_index state 1 = Inr (state ! 1)"
    "py_index state 2 = Inr (state ! 2)"
    using py_index_in_range [OF len(1)] py_index_in_range [OF len(2)] py_index_in_range [OF len(3)]
    by simp_all
  then show ?thesis by (simp add: Lorenz_def Let_def)
qed

lemma Lorenz_short:
  assumes "length state < 3"
  shows "Lorenz state t sigma r b = Inl IndexError"
proof -
  have "py_index state 0 = Inl IndexError \<or> py_index state 1 = Inl IndexError
          \<or> py_index state 2 = Inl IndexError"
    using assms by (auto simp: py_index_def)
  then show ?thesis
    by (auto simp: Lorenz_def Let_def split: sum.split dest: py_index_error)
qed

lemma Lorenz_value:
  assumes "3 \<le> length state"
  shows "Lorenz state t sigma r b =
     Inr [sigma * (state ! 1 - state ! 0), (r - state ! 2) * state ! 0 - state ! 1,
          state ! 0 * state ! 1 - b * state ! 2]"
proof -
  from assms have len: "0 < length state" "1 < length state" "2 < length state"
    by arith+
  have "py_index state 0 = Inr (state ! 0)" "py_index state 1 = Inr (state ! 1)"
    "py_index state 2 = Inr (state ! 2)"
    using py_index_in_range [OF len(1)] py_index_in_range [OF len(2)] py_index_in_range [OF len(3)]
    by simp_all
  then show ?thesis by (simp add: Lorenz_def Let_def)
qed

text \<open>
  C1. For a state vector \<open>[x, y, z]\<close> and parameters \<open>sigma\<close>, \<open>r\<close>, \<open>b\<close>, the call
  \<open>Lorenz(state, t, sigma, r, b)\<close> returns the right-hand side of the classical Lorenz
  equations, \<open>[sigma*(y-x), r*x - y - x*z, x*y - b*z]\<close>; the second component as coded,
  \<open>(r-z)*x - y\<close>, equals the classical form \<open>r*x - y - x*z\<close> in exact arithmetic.
\<close>

theorem Lorenz_classical_rhs:
  "Lorenz [x, y, z] t sigma r b = Inr [sigma * (y - x), r * x - y - x * z, x * y - b * z]
   \<and> (r - z) * x - y = r * x - y - x * z"
  by (simp add: Lorenz_def py_index_def algebra_simps)

text \<open>
  C10. Lorenz is autonomous: the time argument is never read, so two calls that differ
  only in the time return the same value (the same derivative, or the same error).
\<close>

theorem Lorenz_autonomous:
  "Lorenz state t1 sigma r b = Lorenz state t2 sigma r b"
  by (simp add: Lorenz_def)

section \<open>The steps of the peak extraction\<close>

text \<open>
  Each vectorised step of the cell in closed form, in any arithmetic. The shapes on both
  sides of every elementwise operation agree for every length of \<open>Z\<close>, so the cell never
  raises.
\<close>

lemma diff_closed:
  "broadcast2 (a_sub A) (py_slice (Some 2) (Some (-1)) Z) (py_slice (Some 0) (Some (-3)) Z)
     = Inr (map (\<lambda>k. a_sub A (Z ! (k + 2)) (Z ! k)) [0..<length Z - 3])"
proof -
  let ?n = "length Z"
  have len: "length (take (?n - 3) (drop 2 Z)) = ?n - 3" "length (take (?n - 3) Z) = ?n - 3"
    by simp_all
  have "map2 (a_sub A) (take (?n - 3) (drop 2 Z)) (take (?n - 3) Z)
          = map (\<lambda>k. a_sub A (Z ! (k + 2)) (Z ! k)) [0..<?n - 3]"
    by (rule nth_equalityI) (simp_all add: add.commute)
  then show ?thesis
    unfolding broadcast2_def slice_2_m1 slice_0_m3 using len by simp
qed

lemma set_slice_closed:
  "set_slice (Some 1) (Some (-2)) (zeros A (length Z))
       (map (\<lambda>k. a_sub A (Z ! (k + 2)) (Z ! k)) [0..<length Z - 3])
     = Inr (map (centred A Z) [0..<length Z])"
proof -
  let ?n = "length Z"
  let ?z = "a_zero A"
  let ?d = "map (\<lambda>k. a_sub A (Z ! (k + 2)) (Z ! k)) [0..<?n - 3]"
  let ?new = "take (min ?n 1) (replicate ?n ?z) @ ?d @ drop (min ?n 1 + (?n - 3)) (replicate ?n ?z)"
  have lo: "clip_index ?n 1 = min ?n 1" by (simp add: clip_index_def)
  have hi: "clip_index ?n (-2) = ?n - 2" by (simp add: clip_index_def max_def nat_diff_distrib')
  have m: "(?n - 2) - min ?n 1 = ?n - 3" by arith
  have eq: "?new = map (centred A Z) [0..<?n]"
  proof (rule nth_equalityI)
    show "length ?new = length (map (centred A Z) [0..<?n])"
      by (auto simp: min_def)
  next
    fix i
    assume "i < length ?new"
    then have i: "i < ?n" by (simp add: min_def split: if_splits)
    show "?new ! i = map (centred A Z) [0..<?n] ! i"
    proof (cases "i = 0")
      case True
      with i show ?thesis by (simp add: nth_append centred_def)
    next
      case False
      note nz = this
      show ?thesis
      proof (cases "i + 3 \<le> ?n")
        case True
        with nz have k: "i - 1 < ?n - 3" "i - 1 + 2 = i + 1" "\<not> i < min ?n 1"
          "i - min ?n 1 = i - 1" "min ?n 1 = 1"
          by (simp_all add: min_def)
        have "(?d ! (i - 1)) = a_sub A (Z ! (i + 1)) (Z ! (i - 1))"
          using k(1,2) by simp
        with True nz i k show ?thesis
          by (simp add: nth_append centred_def)
      next
        case False
        with nz i have k: "\<not> i < min ?n 1" "\<not> i - min ?n 1 < ?n - 3" "min ?n 1 = 1"
          by (simp_all add: min_def)
        from False nz i k show ?thesis
          by (simp add: nth_append centred_def)
      qed
    qed
  qed
  show ?thesis
    unfolding set_slice_def Let_def zeros_def option.case lo hi m length_replicate
    using eq by simp
qed

lemma crossing_closed:
  "broadcast2 (a_mul A) (py_slice None (Some (-2)) (map (centred A Z) [0..<length Z]))
                  (py_slice (Some 1) (Some (-1)) (map (centred A Z) [0..<length Z]))
     = Inr (map (\<lambda>i. a_mul A (centred A Z i) (centred A Z (i + 1))) [0..<length Z - 2])"
proof -
  let ?n = "length Z"
  let ?D = "map (centred A Z) [0..<?n]"
  have "map2 (a_mul A) (take (?n - 2) ?D) (take (?n - 2) (drop 1 ?D))
          = map (\<lambda>i. a_mul A (centred A Z i) (centred A Z (i + 1))) [0..<?n - 2]"
  proof (rule nth_equalityI)
    show "length (map2 (a_mul A) (take (?n - 2) ?D) (take (?n - 2) (drop 1 ?D)))
            = length (map (\<lambda>i. a_mul A (centred A Z i) (centred A Z (i + 1))) [0..<?n - 2])"
      by simp
  next
    fix i
    assume "i < length (map2 (a_mul A) (take (?n - 2) ?D) (take (?n - 2) (drop 1 ?D)))"
    then have i: "i < ?n - 2" by simp
    then have "take (?n - 2) ?D ! i = centred A Z i"
      and "take (?n - 2) (drop 1 ?D) ! i = centred A Z (i + 1)"
      by simp_all
    with i show "map2 (a_mul A) (take (?n - 2) ?D) (take (?n - 2) (drop 1 ?D)) ! i
                   = map (\<lambda>i. a_mul A (centred A Z i) (centred A Z (i + 1))) [0..<?n - 2] ! i"
      by simp
  qed
  then show ?thesis
    unfolding broadcast2_def slice_none_m2 slice_1_m1 by simp
qed

lemma nonzero_crossing:
  "nonzero (map (\<lambda>p. a_le A p (a_zero A))
        (map (\<lambda>i. a_mul A (centred A Z i) (centred A Z (i + 1))) [0..<length Z - 2]))
     = crossings A Z"
  unfolding nonzero_def crossings_def by (rule filter_cong) simp_all

lemma crossings_bound: "i \<in> set (crossings A Z) \<Longrightarrow> i + 2 < length Z"
  by (auto simp: crossings_def)

lemma lorenz_map_cell_closed:
  "lorenz_map_cell A Z =
     Inr \<lparr>dZ = map (centred A Z) [0..<length Z],
          icross = crossings A Z,
          Zextreme = map (\<lambda>i. Z ! i) (crossings A Z),
          meanZ = a_mean A Z,
          Zn = filter (\<lambda>v. a_gt A v (a_mean A Z)) (map (\<lambda>i. Z ! i) (crossings A Z))\<rparr>"
proof -
  have idx: "take_indices Z (crossings A Z) = Inr (map (\<lambda>i. Z ! i) (crossings A Z))"
    by (rule take_indices_in_range) (auto dest: crossings_bound)
  show ?thesis
    unfolding lorenz_map_cell_def diff_closed sum.case set_slice_closed crossing_closed
      nonzero_crossing Let_def idx mask_select_map
    by (rule refl)
qed


lemma crossings_via_dZ:
  "crossings A Z = filter (\<lambda>i. i + 3 \<le> length Z
       \<and> a_le A (a_mul A (map (centred A Z) [0..<length Z] ! i)
                         (map (centred A Z) [0..<length Z] ! (i + 1))) (a_zero A)) [0..<length Z]"
proof -
  have "filter (\<lambda>i. a_le A (a_mul A (map (centred A Z) [0..<length Z] ! i)
                         (map (centred A Z) [0..<length Z] ! (i + 1))) (a_zero A))
          [0..<length Z - 2] = crossings A Z"
    unfolding crossings_def by (rule filter_cong) auto
  then show ?thesis by (simp only: filter_upt_cut)
qed


text \<open>
  The cell evaluated in binary64 at three series: a ramp, a series with one peak, and a
  series whose centred difference overflows. Every finite value that occurs is a binary64
  number.
\<close>

lemma fl_round_small: "\<bar>q\<bar> \<le> 2 ^ 1000 \<Longrightarrow> fl_round q = Fin q"
proof -
  assume a: "\<bar>q\<bar> \<le> 2 ^ 1000"
  have "(2::rat) ^ 1000 < 2 ^ 1024 - 2 ^ 970" by simp
  with a show ?thesis by (auto simp: fl_round_def)
qed

lemmas fl_eval = fl_round_small fl_sub_def fl_gt_def fl_mean_def float_arith_def
  centred_def crossings_def

lemma cell_at_ramp:
  "lorenz_map_cell float_arith [Fin 1, Fin 2, Fin 3, Fin 4] =
     Inr \<lparr>dZ = [Fin 0, Fin 2, Fin 0, Fin 0], icross = [0, 1], Zextreme = [Fin 1, Fin 2],
          meanZ = Fin (5 / 2), Zn = []\<rparr>"
  unfolding lorenz_map_cell_closed by (simp add: fl_eval)

lemma cell_at_peak:
  "lorenz_map_cell float_arith [Fin 0, Fin 1, Fin 3, Fin 4, Fin 2, Fin 0, Fin 0, Fin 0] =
     Inr \<lparr>dZ = [Fin 0, Fin 3, Fin 3, Fin (- 1), Fin (- 4), Fin (- 2), Fin 0, Fin 0],
          icross = [0, 2, 5], Zextreme = [Fin 0, Fin 3, Fin 0], meanZ = Fin (5 / 4),
          Zn = [Fin 3]\<rparr>"
  unfolding lorenz_map_cell_closed by (simp add: fl_eval)


text \<open>
  C4, as stated, lets the sign test range over every pair of consecutive entries of
  \<open>dZ\<close>. The code tests the pairs \<open>(i, i+1)\<close> for \<open>i\<close> up to \<open>len(Z) - 3\<close> only: in the
  series \<open>[1, 2, 3, 4]\<close> the last pair, at \<open>i = 2\<close>, has the product \<open>0\<close> and is not selected.
\<close>

theorem crossing_last_pair_counterexample:
  "lorenz_map_cell float_arith [Fin 1, Fin 2, Fin 3, Fin 4] =
     Inr \<lparr>dZ = [Fin 0, Fin 2, Fin 0, Fin 0], icross = [0, 1], Zextreme = [Fin 1, Fin 2],
          meanZ = Fin (5 / 2), Zn = []\<rparr>
   \<and> (2::nat) + 1 < length [Fin 1, Fin 2, Fin 3, Fin 4]
   \<and> fl_le (fl_mul (dZ (projr (lorenz_map_cell float_arith [Fin 1, Fin 2, Fin 3, Fin 4])) ! 2)
                    (dZ (projr (lorenz_map_cell float_arith [Fin 1, Fin 2, Fin 3, Fin 4])) ! (2 + 1)))
            (Fin 0)
   \<and> 2 \<notin> set (icross (projr (lorenz_map_cell float_arith [Fin 1, Fin 2, Fin 3, Fin 4])))"
  using cell_at_ramp by (simp add: fl_eval)

text \<open>
  C4 (amended). The cell never raises, and: \<open>dZ\<close> has the length of \<open>Z\<close>, with
  \<open>dZ[i] = Z[i+1] - Z[i-1]\<close> for the indices \<open>1\<close> to \<open>len(Z) - 3\<close> and \<open>0\<close> at the other
  indices; \<open>icross\<close> holds, in increasing order, exactly the indices \<open>i\<close> from \<open>0\<close> to
  \<open>len(Z) - 3\<close> with \<open>dZ[i]*dZ[i+1] <= 0\<close>; \<open>Zextreme\<close> holds the samples of \<open>Z\<close> at those
  indices; and \<open>Zn\<close> keeps exactly those of them strictly greater than the mean of \<open>Z\<close>.
  Every operation is the one of the arithmetic of the array.
\<close>

theorem peak_extraction_steps:
  "\<exists>m. lorenz_map_cell A Z = Inr m
     \<and> length (dZ m) = length Z
     \<and> (\<forall>i<length Z. dZ m ! i =
           (if 1 \<le> i \<and> i + 3 \<le> length Z then a_sub A (Z ! (i + 1)) (Z ! (i - 1)) else a_zero A))
     \<and> icross m = filter (\<lambda>i. i + 3 \<le> length Z
                          \<and> a_le A (a_mul A (dZ m ! i) (dZ m ! (i + 1))) (a_zero A)) [0..<length Z]
     \<and> Zextreme m = map (\<lambda>i. Z ! i) (icross m)
     \<and> meanZ m = a_mean A Z
     \<and> Zn m = filter (\<lambda>v. a_gt A v (a_mean A Z)) (Zextreme m)"
proof -
  let ?m = "\<lparr>dZ = map (centred A Z) [0..<length Z], icross = crossings A Z,
             Zextreme = map (\<lambda>i. Z ! i) (crossings A Z), meanZ = a_mean A Z,
             Zn = filter (\<lambda>v. a_gt A v (a_mean A Z)) (map (\<lambda>i. Z ! i) (crossings A Z))\<rparr>"
  have "lorenz_map_cell A Z = Inr ?m" by (rule lorenz_map_cell_closed)
  moreover have "length (dZ ?m) = length Z" by simp
  moreover have "\<forall>i<length Z. dZ ?m ! i =
      (if 1 \<le> i \<and> i + 3 \<le> length Z then a_sub A (Z ! (i + 1)) (Z ! (i - 1)) else a_zero A)"
    by (simp add: centred_def)
  moreover have "icross ?m = filter (\<lambda>i. i + 3 \<le> length Z
        \<and> a_le A (a_mul A (dZ ?m ! i) (dZ ?m ! (i + 1))) (a_zero A)) [0..<length Z]"
    using crossings_via_dZ [of A Z] by simp
  moreover have "Zextreme ?m = map (\<lambda>i. Z ! i) (icross ?m)" by simp
  moreover have "meanZ ?m = a_mean A Z" by simp
  moreover have "Zn ?m = filter (\<lambda>v. a_gt A v (a_mean A Z)) (Zextreme ?m)" by simp
  ultimately show ?thesis by blast
qed

theorem peak_extraction_steps_witness:
  "lorenz_map_cell float_arith [Fin 0, Fin 1, Fin 3, Fin 4, Fin 2, Fin 0, Fin 0, Fin 0] =
     Inr \<lparr>dZ = [Fin 0, Fin 3, Fin 3, Fin (- 1), Fin (- 4), Fin (- 2), Fin 0, Fin 0],
          icross = [0, 2, 5], Zextreme = [Fin 0, Fin 3, Fin 0], meanZ = Fin (5 / 4),
          Zn = [Fin 3]\<rparr>
   \<and> [Fin 0, Fin 3, Fin 3, Fin (- 1), Fin (- 4), Fin (- 2), Fin 0, Fin 0] ! 2
       = fl_sub ([Fin 0, Fin 1, Fin 3, Fin 4, Fin 2, Fin 0, Fin 0, Fin 0] ! 3)
                ([Fin 0, Fin 1, Fin 3, Fin 4, Fin 2, Fin 0, Fin 0, Fin 0] ! 1)
   \<and> [Fin 3] = filter (\<lambda>v. fl_gt v (Fin (5 / 4))) [Fin 0, Fin 3, Fin 0]"
proof -
  let ?Z = "[Fin 0, Fin 1, Fin 3, Fin 4, Fin 2, Fin 0, Fin 0, Fin 0]"
  let ?M = "\<lparr>dZ = [Fin 0, Fin 3, Fin 3, Fin (- 1), Fin (- 4), Fin (- 2), Fin 0, Fin 0],
          icross = [0, 2, 5], Zextreme = [Fin 0, Fin 3, Fin 0], meanZ = Fin (5 / 4),
          Zn = [Fin 3]\<rparr>"
  have run: "lorenz_map_cell float_arith ?Z = Inr ?M" by (rule cell_at_peak)
  from peak_extraction_steps [of float_arith ?Z] obtain m
    where m: "lorenz_map_cell float_arith ?Z = Inr m"
    and d: "\<forall>i<length ?Z. dZ m ! i =
        (if 1 \<le> i \<and> i + 3 \<le> length ?Z then a_sub float_arith (?Z ! (i + 1)) (?Z ! (i - 1))
         else a_zero float_arith)"
    and z: "Zn m = filter (\<lambda>v. a_gt float_arith v (a_mean float_arith ?Z)) (Zextreme m)"
    and mz: "meanZ m = a_mean float_arith ?Z"
    by blast
  from m run have eq: "m = ?M" by simp
  from d have "dZ m ! 2 = a_sub float_arith (?Z ! 3) (?Z ! 1)" by simp
  then have 1: "dZ ?M ! 2 = fl_sub (?Z ! 3) (?Z ! 1)"
    unfolding eq by (simp add: float_arith_def)
  from mz have "a_mean float_arith ?Z = Fin (5 / 4)" unfolding eq by simp
  with z have 2: "Zn ?M = filter (\<lambda>v. fl_gt v (Fin (5 / 4))) (Zextreme ?M)"
    unfolding eq by (simp add: float_arith_def)
  from run 1 2 show ?thesis by simp
qed




text \<open>
  C2, as stated, fails: in the series \<open>[0, 1, 3, 4, 2, 0, 0, 0]\<close> the cell selects the
  value \<open>3\<close>, the left neighbour of the peak \<open>4\<close>, and \<open>3\<close> is not a local maximum.
\<close>

theorem selected_not_local_max_counterexample:
  "lorenz_map_cell float_arith [Fin 0, Fin 1, Fin 3, Fin 4, Fin 2, Fin 0, Fin 0, Fin 0] =
     Inr \<lparr>dZ = [Fin 0, Fin 3, Fin 3, Fin (- 1), Fin (- 4), Fin (- 2), Fin 0, Fin 0],
          icross = [0, 2, 5], Zextreme = [Fin 0, Fin 3, Fin 0], meanZ = Fin (5 / 4),
          Zn = [Fin 3]\<rparr>
   \<and> Fin 3 \<in> set (Zn (projr (lorenz_map_cell float_arith
                  [Fin 0, Fin 1, Fin 3, Fin 4, Fin 2, Fin 0, Fin 0, Fin 0])))
   \<and> \<not> is_local_max float_arith [Fin 0, Fin 1, Fin 3, Fin 4, Fin 2, Fin 0, Fin 0, Fin 0] (Fin 3)"
  using cell_at_peak by (simp add: is_local_max_def local_max_at_def float_arith_def)

text \<open>
  C2 (amended). Every value the heuristic selects is a sample \<open>Z[i]\<close> at an index
  \<open>i <= len(Z) - 3\<close> of \<open>icross\<close>: the test \<open>dZ[i]*dZ[i+1] <= 0\<close> on the centred differences
  succeeded there, and the sample compared strictly greater than the mean of \<open>Z\<close>. The
  selected value need not be a local maximum.
\<close>

theorem selected_values_are_crossings:
  assumes run: "lorenz_map_cell A Z = Inr m" and v: "v \<in> set (Zn m)"
  shows "\<exists>i. i + 3 \<le> length Z \<and> i \<in> set (icross m) \<and> Z ! i = v
            \<and> a_gt A v (a_mean A Z)
            \<and> a_le A (a_mul A (dZ m ! i) (dZ m ! (i + 1))) (a_zero A)"
proof -
  from run have m: "dZ m = map (centred A Z) [0..<length Z]" "icross m = crossings A Z"
    "Zn m = filter (\<lambda>v. a_gt A v (a_mean A Z)) (map (\<lambda>i. Z ! i) (crossings A Z))"
    unfolding lorenz_map_cell_closed by auto
  from v m(3) obtain i where i: "i \<in> set (crossings A Z)" "Z ! i = v" "a_gt A v (a_mean A Z)"
    by auto
  from i(1) have bound: "i + 3 \<le> length Z"
    and c: "a_le A (a_mul A (centred A Z i) (centred A Z (i + 1))) (a_zero A)"
    by (auto simp: crossings_def)
  from bound have "dZ m ! i = centred A Z i" "dZ m ! (i + 1) = centred A Z (i + 1)"
    by (simp_all add: m(1))
  with c have "a_le A (a_mul A (dZ m ! i) (dZ m ! (i + 1))) (a_zero A)" by simp
  with bound i show ?thesis
    by (intro exI [of _ i]) (simp add: m(2))
qed

theorem selected_values_are_crossings_witness:
  "lorenz_map_cell float_arith [Fin 0, Fin 1, Fin 3, Fin 4, Fin 2, Fin 0, Fin 0, Fin 0] =
     Inr \<lparr>dZ = [Fin 0, Fin 3, Fin 3, Fin (- 1), Fin (- 4), Fin (- 2), Fin 0, Fin 0],
          icross = [0, 2, 5], Zextreme = [Fin 0, Fin 3, Fin 0], meanZ = Fin (5 / 4),
          Zn = [Fin 3]\<rparr>
   \<and> Fin 3 \<in> set [Fin 3]
   \<and> (\<exists>i. i + 3 \<le> 8 \<and> i \<in> set [0, 2, 5]
          \<and> [Fin 0, Fin 1, Fin 3, Fin 4, Fin 2, Fin 0, Fin 0, Fin 0] ! i = Fin 3
          \<and> fl_gt (Fin 3) (fl_mean [Fin 0, Fin 1, Fin 3, Fin 4, Fin 2, Fin 0, Fin 0, Fin 0]))"
proof -
  let ?Z = "[Fin 0, Fin 1, Fin 3, Fin 4, Fin 2, Fin 0, Fin 0, Fin 0]"
  let ?M = "\<lparr>dZ = [Fin 0, Fin 3, Fin 3, Fin (- 1), Fin (- 4), Fin (- 2), Fin 0, Fin 0],
          icross = [0, 2, 5], Zextreme = [Fin 0, Fin 3, Fin 0], meanZ = Fin (5 / 4),
          Zn = [Fin 3]\<rparr>"
  have run: "lorenz_map_cell float_arith ?Z = Inr ?M" by (rule cell_at_peak)
  have sel: "Fin 3 \<in> set (Zn ?M)" by simp
  from selected_values_are_crossings [OF run sel] obtain i where
    "i + 3 \<le> length ?Z" "i \<in> set (icross ?M)" "?Z ! i = Fin 3"
    "a_gt float_arith (Fin 3) (a_mean float_arith ?Z)"
    by blast
  then have "i + 3 \<le> 8 \<and> i \<in> set [0, 2, 5] \<and> ?Z ! i = Fin 3 \<and> fl_gt (Fin 3) (fl_mean ?Z)"
    by (simp add: float_arith_def)
  then have "\<exists>i. i + 3 \<le> 8 \<and> i \<in> set [0, 2, 5] \<and> ?Z ! i = Fin 3 \<and> fl_gt (Fin 3) (fl_mean ?Z)"
    by (rule exI)
  with run show ?thesis by simp
qed

section \<open>Properties of the bifurcation diagram\<close>

lemma plot_branches_closed:
  "plot_branches f_x vs =
     [Plot (map fst (filter (\<lambda>v. f_x (fst v) (snd v) < 0) vs))
           (map snd (filter (\<lambda>v. f_x (fst v) (snd v) < 0) vs)) ''b'',
      Hold True,
      Plot (map fst (filter (\<lambda>v. 0 < f_x (fst v) (snd v)) vs))
           (map snd (filter (\<lambda>v. 0 < f_x (fst v) (snd v)) vs)) ''b--'']"
proof -
  have s: "map (\<lambda>s. s < 0) (map sgn (map2 f_x (map fst vs) (map snd vs)))
             = map (\<lambda>v. f_x (fst v) (snd v) < 0) vs"
    by (simp add: map2_fst_snd sgn_less o_def)
  have u: "map (\<lambda>s. 0 < s) (map sgn (map2 f_x (map fst vs) (map snd vs)))
             = map (\<lambda>v. 0 < f_x (fst v) (snd v)) vs"
    by (simp add: map2_fst_snd sgn_greater o_def)
  show ?thesis
    unfolding plot_branches_def Let_def s u mask_select_map2 by (rule refl)
qed


lemma bifurcation_plot_only_branches:
  assumes "Plot xs ys s \<in> set (snd (bifurcation_plot f f_x r x rlabel contour fig))"
  shows "Plot xs ys s \<in> set fig
     \<or> (\<exists>paths. zero_contour contour f r x = Inr paths
           \<and> Plot xs ys s \<in> set (concat (map (plot_branches f_x) paths)))"
  using assms by (auto simp: bifurcation_plot_def zero_contour_def Let_def split: sum.splits)

lemma bifurcation_plot_outcome:
  "fst (bifurcation_plot f f_x r x rlabel contour fig) =
     (case zero_contour contour f r x of
        Inl e \<Rightarrow> Inl e
      | Inr paths \<Rightarrow> if r = [] \<or> x = [] then Inl IndexError else Inr ())"
proof (cases "zero_contour contour f r x")
  case (Inl e)
  then show ?thesis
    by (simp add: bifurcation_plot_def zero_contour_def Let_def)
next
  case (Inr paths)
  show ?thesis
  proof (cases "r = []")
    case True
    with Inr show ?thesis
      by (simp add: bifurcation_plot_def zero_contour_def Let_def py_index_empty)
  next
    case False
    note r = py_index_first_last [OF this]
    show ?thesis
    proof (cases "x = []")
      case True
      with Inr False r show ?thesis
        by (simp add: bifurcation_plot_def zero_contour_def Let_def py_index_empty)
    next
      case x: False
      with Inr False r py_index_first_last [OF x] show ?thesis
        by (simp add: bifurcation_plot_def zero_contour_def Let_def)
    qed
  qed
qed



text \<open>
  C9. A point at which \<open>f_x\<close> is exactly zero is on neither branch: no plot call that
  \<open>bifurcation_plot\<close> makes has it among its points.
\<close>

theorem zero_derivative_vertex_dropped:
  assumes "f_x vr vx = 0"
    and "Plot xs ys style \<in> set (snd (bifurcation_plot f f_x r x rlabel contour []))"
  shows "(vr, vx) \<notin> set (zip xs ys)"
proof -
  from bifurcation_plot_only_branches [OF assms(2)]
  obtain paths where "Plot xs ys style \<in> set (concat (map (plot_branches f_x) paths))"
    by auto
  then obtain path where "Plot xs ys style \<in> set (plot_branches f_x path)"
    by auto
  then have "zip xs ys = filter (\<lambda>v. f_x (fst v) (snd v) < 0) path
           \<or> zip xs ys = filter (\<lambda>v. 0 < f_x (fst v) (snd v)) path"
    unfolding plot_branches_closed by (auto simp: zip_fst_snd)
  with assms(1) show ?thesis by auto
qed

theorem zero_derivative_vertex_dropped_witness:
  "Plot [- 1] [- 1] ''b'' \<in> set (snd (bifurcation_plot (\<lambda>r x. r + x * x) (\<lambda>r x. 2 * x)
       [- 1, 0, 1 :: rat] [- 1, 0, 1] ''r'' (\<lambda>R X F levels. Inr [[(- 1, 1), (0, 0), (- 1, - 1)]]) []))
   \<and> (0 :: rat, 0 :: rat) \<notin> set (zip [- 1] [- 1])"
proof -
  have a: "(\<lambda>r x :: rat. 2 * x) 0 0 = 0" by simp
  have b: "Plot [- 1] [- 1] ''b'' \<in> set (snd (bifurcation_plot (\<lambda>r x. r + x * x) (\<lambda>r x. 2 * x)
       [- 1, 0, 1 :: rat] [- 1, 0, 1] ''r'' (\<lambda>R X F levels. Inr [[(- 1, 1), (0, 0), (- 1, - 1)]]) []))"
    by code_simp
  from zero_derivative_vertex_dropped [of "\<lambda>r x :: rat. 2 * x" 0 0, OF a b] b
  show ?thesis by (intro conjI)
qed

text \<open>
  C5, as stated, fails for an empty \<open>r\<close>: the contour routine of the library refuses the
  empty grid, so the call ends with the library's error before \<open>r[0]\<close> is read, not with
  an IndexError.
\<close>

theorem library_rejects_empty_grid_counterexample:
  "zero_contour (checked_contour (\<lambda>R X F levels. [])) (\<lambda>r x. r + x * x) ([] :: rat list) [- 1, 0, 1]
     = Inl LibraryError
   \<and> bifurcation_plot (\<lambda>r x. r + x * x) (\<lambda>r x. 2 * x) ([] :: rat list) [- 1, 0, 1] ''r''
        (checked_contour (\<lambda>R X F levels. [])) [] = (Inl LibraryError, [Figure])
   \<and> LibraryError \<noteq> IndexError"
  by code_simp

text \<open>
  C5 (amended). Neither function validates its input or handles an error. \<open>Lorenz\<close>
  reads \<open>state[0]\<close>, \<open>state[1]\<close>, \<open>state[2]\<close> unguarded: it raises IndexError on a state of
  fewer than three components and returns the derivative on every other state.
  \<open>bifurcation_plot\<close> reads \<open>r[0]\<close>, \<open>r[-1]\<close>, \<open>x[0]\<close>, \<open>x[-1]\<close> unguarded, after the
  contour call: an error of the contour call passes through unchanged; when the contour
  call returns, the call ends normally if \<open>r\<close> and \<open>x\<close> are non-empty and with the
  IndexError of the raw read if one of them is empty.
\<close>

theorem no_input_validation:
  "Lorenz state t sigma rho b =
     (if length state < 3 then Inl IndexError
      else Inr [sigma * (state ! 1 - state ! 0), (rho - state ! 2) * state ! 0 - state ! 1,
                state ! 0 * state ! 1 - b * state ! 2])
   \<and> fst (bifurcation_plot f f_x r x rlabel contour fig) =
     (case zero_contour contour f r x of
        Inl e \<Rightarrow> Inl e
      | Inr paths \<Rightarrow> if r = [] \<or> x = [] then Inl IndexError else Inr ())"
proof (rule conjI)
  show "Lorenz state t sigma rho b =
     (if length state < 3 then Inl IndexError
      else Inr [sigma * (state ! 1 - state ! 0), (rho - state ! 2) * state ! 0 - state ! 1,
                state ! 0 * state ! 1 - b * state ! 2])"
  proof (cases "length state < 3")
    case True
    then show ?thesis by (simp add: Lorenz_short)
  next
    case False
    then have "3 \<le> length state" by simp
    from Lorenz_value [OF this] False show ?thesis by simp
  qed
next
  show "fst (bifurcation_plot f f_x r x rlabel contour fig) =
     (case zero_contour contour f r x of
        Inl e \<Rightarrow> Inl e
      | Inr paths \<Rightarrow> if r = [] \<or> x = [] then Inl IndexError else Inr ())"
    by (rule bifurcation_plot_outcome)
qed

theorem no_input_validation_witness:
  "Lorenz [1, 2, 3 :: rat] 0 10 28 (8 / 3) = Inr [10, 23, - 6]
   \<and> Lorenz [1, 2 :: rat] 0 10 28 (8 / 3) = Inl IndexError
   \<and> fst (bifurcation_plot (\<lambda>r x. r + x * x) (\<lambda>r x. 2 * x) [- 1, 0, 1 :: rat] [- 1, 0, 1] ''r''
          (checked_contour (\<lambda>R X F levels. [[(- 1, 1), (0, 0), (- 1, - 1)]])) []) = Inr ()
   \<and> fst (bifurcation_plot (\<lambda>r x. r + x * x) (\<lambda>r x. 2 * x) [- 1, 0, 1 :: rat] [] ''r''
          (checked_contour (\<lambda>R X F levels. [[(- 1, 1), (0, 0), (- 1, - 1)]])) []) = Inl LibraryError
   \<and> fst (bifurcation_plot (\<lambda>r x. r + x * x) (\<lambda>r x. 2 * x) [- 1, 0, 1 :: rat] [] ''r''
          (\<lambda>R X F levels. Inr []) []) = Inl IndexError"
proof -
  let ?lib = "checked_contour (\<lambda>R X F levels. [[(- 1, 1), (0, 0), (- 1, - 1)]]) :: rat contour_lib"
  let ?f = "\<lambda>r x :: rat. r + x * x"
  let ?f_x = "\<lambda>r x :: rat. 2 * x"
  have c1: "zero_contour ?lib ?f [- 1, 0, 1] [- 1, 0, 1] = Inr [[(- 1, 1), (0, 0), (- 1, - 1)]]"
    by code_simp
  have c2: "zero_contour ?lib ?f [- 1, 0, 1] [] = Inl LibraryError"
    by code_simp
  have c3: "zero_contour (\<lambda>R X F levels. Inr []) ?f [- 1, 0, 1] [] = Inr []"
    by (simp add: zero_contour_def)
  from no_input_validation [of "[1, 2, 3 :: rat]" 0 10 28 "8 / 3" ?f ?f_x "[- 1, 0, 1]" "[- 1, 0, 1]" "''r''" ?lib "[]"]
  have 1: "Lorenz [1, 2, 3 :: rat] 0 10 28 (8 / 3) = Inr [10, 23, - 6]"
    and 3: "fst (bifurcation_plot ?f ?f_x [- 1, 0, 1] [- 1, 0, 1] ''r'' ?lib []) = Inr ()"
    by (simp_all add: c1)
  from no_input_validation [of "[1, 2 :: rat]" 0 10 28 "8 / 3" ?f ?f_x "[- 1, 0, 1]" "[]" "''r''" ?lib "[]"]
  have 2: "Lorenz [1, 2 :: rat] 0 10 28 (8 / 3) = Inl IndexError"
    and 4: "fst (bifurcation_plot ?f ?f_x [- 1, 0, 1] [] ''r'' ?lib []) = Inl LibraryError"
    by (simp_all add: c2)
  from no_input_validation [of "[1, 2 :: rat]" 0 10 28 "8 / 3" ?f ?f_x "[- 1, 0, 1]" "[]" "''r''" "\<lambda>R X F levels. Inr []" "[]"]
  have 5: "fst (bifurcation_plot ?f ?f_x [- 1, 0, 1] [] ''r'' (\<lambda>R X F levels. Inr []) []) = Inl IndexError"
    by (simp add: c3)
  from 1 2 3 4 5 show ?thesis by blast
qed

section \<open>What a call leaves unchanged\<close>

lemma Lorenz_st_result:
  "Lorenz_st state t sigma r b w =
     (case Lorenz (arrays w state) t sigma r b of
        Inl e \<Rightarrow> (Inl e, w)
      | Inr d \<Rightarrow> (Inr (next_free w),
                  w\<lparr>arrays := (arrays w)(next_free w := d), next_free := Suc (next_free w)\<rparr>))"
  by (simp add: Lorenz_st_def Lorenz_def getitem_def new_list_def Let_def split: sum.split)

lemma bifurcation_plot_st_result:
  "bifurcation_plot_st f f_x r x rlabel contour w =
     (case bifurcation_plot (funcs w f) (funcs w f_x) (arrays w r) (arrays w x) rlabel contour
             (figure w) of
        (res, fig') \<Rightarrow> (res, w\<lparr>figure := fig'\<rparr>))"
  by (simp add: bifurcation_plot_st_def bifurcation_plot_def getitem_def plt_calls_def Let_def
      split: sum.split)

text \<open>
  C6. \<open>Lorenz\<close> leaves its argument, and every other array in use, as it was, returns a
  list at an address that was not in use, and makes no figure call. \<open>bifurcation_plot\<close>
  leaves every array, \<open>r\<close> and \<open>x\<close> among them, and every function object, \<open>f\<close> and \<open>f_x\<close>
  among them, as it was, and allocates nothing a caller can reach: of the store it
  changes the figure only.
\<close>

theorem inputs_not_mutated:
  "(state < next_free w \<longrightarrow>
      arrays (snd (Lorenz_st state t sigma rho b w)) state = arrays w state)
   \<and> (\<forall>a < next_free w. arrays (snd (Lorenz_st state t sigma rho b w)) a = arrays w a)
   \<and> (\<forall>p. fst (Lorenz_st state t sigma rho b w) = Inr p \<longrightarrow>
         p = next_free w \<and> next_free (snd (Lorenz_st state t sigma rho b w)) = Suc p)
   \<and> funcs (snd (Lorenz_st state t sigma rho b w)) = funcs w
   \<and> figure (snd (Lorenz_st state t sigma rho b w)) = figure w
   \<and> arrays (snd (bifurcation_plot_st f f_x r x rlabel contour w)) = arrays w
   \<and> funcs (snd (bifurcation_plot_st f f_x r x rlabel contour w)) = funcs w
   \<and> next_free (snd (bifurcation_plot_st f f_x r x rlabel contour w)) = next_free w"
proof -
  have L: "(\<forall>a < next_free w. arrays (snd (Lorenz_st state t sigma rho b w)) a = arrays w a)
     \<and> (\<forall>p. fst (Lorenz_st state t sigma rho b w) = Inr p \<longrightarrow>
         p = next_free w \<and> next_free (snd (Lorenz_st state t sigma rho b w)) = Suc p)
     \<and> funcs (snd (Lorenz_st state t sigma rho b w)) = funcs w
     \<and> figure (snd (Lorenz_st state t sigma rho b w)) = figure w"
    by (auto simp: Lorenz_st_def getitem_def new_list_def Let_def split: sum.splits)
  have B: "arrays (snd (bifurcation_plot_st f f_x r x rlabel contour w)) = arrays w
     \<and> funcs (snd (bifurcation_plot_st f f_x r x rlabel contour w)) = funcs w
     \<and> next_free (snd (bifurcation_plot_st f f_x r x rlabel contour w)) = next_free w"
    by (simp add: bifurcation_plot_st_def getitem_def plt_calls_def Let_def split: sum.split)
  from L B show ?thesis by blast
qed

theorem inputs_not_mutated_witness:
  "(0::nat) < next_free \<lparr>arrays = (\<lambda>_. [])(0 := [1, 2, 3 :: rat]), funcs = (\<lambda>_ r x. 0),
                         next_free = 1, figure = []\<rparr>
   \<and> arrays (snd (Lorenz_st 0 0 10 28 (8 / 3)
        \<lparr>arrays = (\<lambda>_. [])(0 := [1, 2, 3 :: rat]), funcs = (\<lambda>_ r x. 0), next_free = 1,
          figure = []\<rparr>)) 0 = [1, 2, 3]
   \<and> fst (Lorenz_st 0 0 10 28 (8 / 3)
        \<lparr>arrays = (\<lambda>_. [])(0 := [1, 2, 3 :: rat]), funcs = (\<lambda>_ r x. 0), next_free = 1,
          figure = []\<rparr>) = Inr 1
   \<and> arrays (snd (Lorenz_st 0 0 10 28 (8 / 3)
        \<lparr>arrays = (\<lambda>_. [])(0 := [1, 2, 3 :: rat]), funcs = (\<lambda>_ r x. 0), next_free = 1,
          figure = []\<rparr>)) 1 = [10, 23, - 6]"
proof -
  let ?w = "\<lparr>arrays = (\<lambda>_. [])(0 := [1, 2, 3 :: rat]), funcs = (\<lambda>_ r x. 0), next_free = 1,
             figure = []\<rparr>"
  have a: "0 < next_free ?w" by simp
  have r: "Lorenz_st 0 0 10 28 (8 / 3) ?w =
      (Inr 1, ?w\<lparr>arrays := (arrays ?w)(1 := [10, 23, - 6]), next_free := 2\<rparr>)"
    by (simp add: Lorenz_st_def getitem_def new_list_def py_index_def)
  from inputs_not_mutated [of 0 ?w 0 10 28 "8 / 3"] a
  have "arrays (snd (Lorenz_st 0 0 10 28 (8 / 3) ?w)) 0 = arrays ?w 0"
    by blast
  then have "arrays (snd (Lorenz_st 0 0 10 28 (8 / 3) ?w)) 0 = [1, 2, 3]" by simp
  moreover from r have "fst (Lorenz_st 0 0 10 28 (8 / 3) ?w) = Inr 1"
    "arrays (snd (Lorenz_st 0 0 10 28 (8 / 3) ?w)) 1 = [10, 23, - 6]"
    by simp_all
  ultimately show ?thesis using a by blast
qed

end
